theory Spec2Isabelle
  imports Complex_Main "HOL-Library.Char_ord" "HOL-Library.List_Lexorder" "HOL-Library.Multiset"
begin

section \<open>Strings and the regular expressions of VisualizationPanel.jsx\<close>

text \<open>
  Texts (titles, the intent, the persona, record keys) are 8-bit strings. The panel only ever
  compares them with ASCII patterns, and the model is exact on ASCII text; the two titles that
  carry an en dash hold its three UTF-8 bytes. \<open>toLowerCase\<close> lowers the letters A to Z and leaves
  every other byte alone.
\<close>

definition toLowerCase_char :: "char \<Rightarrow> char" where
  "toLowerCase_char c =
     (case map_of (zip ''ABCDEFGHIJKLMNOPQRSTUVWXYZ'' ''abcdefghijklmnopqrstuvwxyz'') c of
        None \<Rightarrow> c
      | Some l \<Rightarrow> l)"

definition toLowerCase :: "string \<Rightarrow> string" where
  "toLowerCase s = map toLowerCase_char s"

text \<open>\<open>startsWith p s\<close>: the text \<open>s\<close> begins with \<open>p\<close>.\<close>

fun startsWith :: "string \<Rightarrow> string \<Rightarrow> bool" where
  "startsWith [] s = True"
| "startsWith (p # ps) [] = False"
| "startsWith (p # ps) (c # cs) = (p = c \<and> startsWith ps cs)"

text \<open>\<open>contains p s\<close>: \<open>p\<close> occurs in \<open>s\<close> as a contiguous piece.\<close>

fun contains :: "string \<Rightarrow> string \<Rightarrow> bool" where
  "contains p [] = (p = [])"
| "contains p (c # cs) = (startsWith p (c # cs) \<or> contains p cs)"

text \<open>
  Every pattern of the panel is an alternation of sequences of four kinds of atom: a literal
  text, \<open>.*\<close>, \<open>\s*\<close> and \<open>\b\<close>. A \<open>regex\<close> is the list of its alternatives.
\<close>

datatype atom = Lit string | DotStar | SpaceStar | WordB

type_synonym regex = "atom list list"

definition isLineTerminator :: "char \<Rightarrow> bool" where
  "isLineTerminator c = (c = CHR 0x0A \<or> c = CHR 0x0D)"

definition isSpace :: "char \<Rightarrow> bool" where
  "isSpace c = (c \<in> set [CHR '' '', CHR 0x09, CHR 0x0A, CHR 0x0B, CHR 0x0C, CHR 0x0D])"

definition isWordChar :: "char \<Rightarrow> bool" where
  "isWordChar c =
     (c \<in> set ''abcdefghijklmnopqrstuvwxyzABCDEFGHIJKLMNOPQRSTUVWXYZ0123456789_'')"

definition isWordOpt :: "char option \<Rightarrow> bool" where
  "isWordOpt c = (case c of None \<Rightarrow> False | Some d \<Rightarrow> isWordChar d)"

definition lastChar :: "char option \<Rightarrow> string \<Rightarrow> char option" where
  "lastChar prev p = (if p = [] then prev else Some (last p))"

definition nextChar :: "string \<Rightarrow> char option" where
  "nextChar s = (case s of [] \<Rightarrow> None | c # _ \<Rightarrow> Some c)"

text \<open>
  \<open>matchSeq as prev s\<close>: the sequence \<open>as\<close> matches some prefix of \<open>s\<close>, where \<open>prev\<close> is the
  character just before \<open>s\<close> in the whole text (\<open>None\<close> at its start; \<open>\b\<close> looks at it).
\<close>

fun matchSeq :: "atom list \<Rightarrow> char option \<Rightarrow> string \<Rightarrow> bool" where
  "matchSeq [] prev s = True"
| "matchSeq (Lit p # r) prev s =
     (startsWith p s \<and> matchSeq r (lastChar prev p) (drop (length p) s))"
| "matchSeq (DotStar # r) prev [] = matchSeq r prev []"
| "matchSeq (DotStar # r) prev (c # cs) =
     (matchSeq r prev (c # cs) \<or> (\<not> isLineTerminator c \<and> matchSeq (DotStar # r) (Some c) cs))"
| "matchSeq (SpaceStar # r) prev [] = matchSeq r prev []"
| "matchSeq (SpaceStar # r) prev (c # cs) =
     (matchSeq r prev (c # cs) \<or> (isSpace c \<and> matchSeq (SpaceStar # r) (Some c) cs))"
| "matchSeq (WordB # r) prev s =
     (isWordOpt prev \<noteq> isWordOpt (nextChar s) \<and> matchSeq r prev s)"

text \<open>\<open>testFrom\<close> tries every start position, left to right; \<open>test\<close> is \<open>RegExp.test\<close>.\<close>

fun testFrom :: "regex \<Rightarrow> char option \<Rightarrow> string \<Rightarrow> bool" where
  "testFrom re prev [] = list_ex (\<lambda>as. matchSeq as prev []) re"
| "testFrom re prev (c # cs) =
     (list_ex (\<lambda>as. matchSeq as prev (c # cs)) re \<or> testFrom re (Some c) cs)"

definition test :: "regex \<Rightarrow> string \<Rightarrow> bool" where
  "test re s = testFrom re None s"

text \<open>The patterns, named after the flags they compute (lines 112 to 117, 471, 482 to 486).\<close>

definition rxWantsProfile :: regex where
  "rxWantsProfile =
     [[Lit ''temp'', DotStar, Lit ''pres''], [Lit ''profile''], [Lit ''vs'', SpaceStar, Lit ''pressure'']]"

definition rxWantsSurface :: regex where
  "rxWantsSurface = [[Lit ''surface''], [Lit ''0-10'', SpaceStar, Lit ''dbar''], [Lit ''shallow'']]"

definition rxWantsTime :: regex where
  "rxWantsTime =
     [[Lit ''trend''], [Lit ''time series''], [Lit ''over time''], [Lit ''monthly''], [Lit ''daily'']]"

definition rxWantsSalinity :: regex where
  "rxWantsSalinity = [[Lit ''salinity''], [Lit ''psal'']]"

definition rxWantsTemperature :: regex where
  "rxWantsTemperature = [[Lit ''temperature''], [Lit ''temp'']]"

definition rxWantsHistogram :: regex where
  "rxWantsHistogram =
     [[Lit ''histogram''], [WordB, Lit ''hist'', WordB], [Lit ''bar'', SpaceStar, Lit ''chart'']]"

text \<open>The two intent patterns the ranker writes differently from the classifier's (lines 482, 486).\<close>

definition rxRankProfile :: regex where
  "rxRankProfile = [[Lit ''temp'', DotStar, Lit ''pres''], [Lit ''profile'']]"

definition rxRankSurface :: regex where
  "rxRankSurface = [[Lit ''surface''], [Lit ''0-10'', SpaceStar, Lit ''dbar'']]"

definition wantsProfile :: "string \<Rightarrow> bool" where
  "wantsProfile q = test rxWantsProfile q"

definition wantsSurface :: "string \<Rightarrow> bool" where
  "wantsSurface q = test rxWantsSurface q"

definition wantsTime :: "string \<Rightarrow> bool" where
  "wantsTime q = test rxWantsTime q"

definition wantsSalinity :: "string \<Rightarrow> bool" where
  "wantsSalinity q = test rxWantsSalinity q"

definition wantsTemperature :: "string \<Rightarrow> bool" where
  "wantsTemperature q = test rxWantsTemperature q"

definition wantsHistogram :: "string \<Rightarrow> bool" where
  "wantsHistogram q = test rxWantsHistogram q"


section \<open>Records, values and the JavaScript runtime\<close>

text \<open>
  A record of the dataset is a JSON object with scalar values: a map from keys to values, where
  a key that is absent reads as \<open>undefined\<close> (\<open>None\<close>). Numbers are left to a type parameter
  \<open>'n\<close>: the panel does floating-point arithmetic on them only through the operations of the
  \<open>runtime\<close> below, and nothing proved here depends on what those operations return.
\<close>

datatype 'n jsval = JNull | JBool bool | JNum 'n | JStr string

type_synonym 'n row = "string \<Rightarrow> 'n jsval option"

text \<open>
  What the panel takes from the JavaScript engine: number operations, \<open>Date\<close> construction
  from a number (\<open>time_clip\<close>) and from a text (\<open>date_parse\<close>), both giving the time value in
  milliseconds, \<open>None\<close> for an invalid date.
\<close>

record 'n runtime =
  num_of_nat :: "nat \<Rightarrow> 'n"
  num_nan :: "'n"
  num_is_nan :: "'n \<Rightarrow> bool"
  num_truthy :: "'n \<Rightarrow> bool"
  num_le :: "'n \<Rightarrow> 'n \<Rightarrow> bool"
  num_add :: "'n \<Rightarrow> 'n \<Rightarrow> 'n"
  num_div :: "'n \<Rightarrow> 'n \<Rightarrow> 'n"
  num_is_finite :: "'n \<Rightarrow> bool"
  str_to_num :: "string \<Rightarrow> 'n"
  js_add :: "'n jsval \<Rightarrow> 'n jsval \<Rightarrow> 'n jsval"
  time_clip :: "'n \<Rightarrow> int option"
  date_parse :: "string \<Rightarrow> int option"

text \<open>\<open>a ?? b\<close>: \<open>b\<close> when \<open>a\<close> is \<open>null\<close> or \<open>undefined\<close>, else \<open>a\<close>.\<close>

definition nullish :: "'n jsval option \<Rightarrow> 'n jsval option \<Rightarrow> 'n jsval option" where
  "nullish a b = (case a of None \<Rightarrow> b | Some JNull \<Rightarrow> b | Some v \<Rightarrow> Some v)"

text \<open>ToBoolean, as \<open>&&\<close>, \<open>||\<close> and \<open>?:\<close> apply it.\<close>

definition truthy :: "'n runtime \<Rightarrow> 'n jsval option \<Rightarrow> bool" where
  "truthy rt v =
     (case v of
        None \<Rightarrow> False
      | Some JNull \<Rightarrow> False
      | Some (JBool b) \<Rightarrow> b
      | Some (JNum n) \<Rightarrow> num_truthy rt n
      | Some (JStr s) \<Rightarrow> s \<noteq> [])"

text \<open>\<open>v || 0\<close>.\<close>

definition orZero :: "'n runtime \<Rightarrow> 'n jsval option \<Rightarrow> 'n jsval" where
  "orZero rt v =
     (case v of
        None \<Rightarrow> JNum (num_of_nat rt 0)
      | Some x \<Rightarrow> if truthy rt (Some x) then x else JNum (num_of_nat rt 0))"

text \<open>\<open>Number(v)\<close>.\<close>

definition toNumber :: "'n runtime \<Rightarrow> 'n jsval option \<Rightarrow> 'n" where
  "toNumber rt v =
     (case v of
        None \<Rightarrow> num_nan rt
      | Some JNull \<Rightarrow> num_of_nat rt 0
      | Some (JBool b) \<Rightarrow> num_of_nat rt (if b then 1 else 0)
      | Some (JNum n) \<Rightarrow> n
      | Some (JStr s) \<Rightarrow> str_to_num rt s)"

text \<open>\<open>(v || 0) <= 10\<close>: a comparison with a number converts the other side to a number.\<close>

definition atMostTen :: "'n runtime \<Rightarrow> 'n jsval option \<Rightarrow> bool" where
  "atMostTen rt v = num_le rt (toNumber rt (Some (orZero rt v))) (num_of_nat rt 10)"

text \<open>\<open>new Date(v).getTime()\<close>, \<open>None\<close> for NaN.\<close>

definition newDate :: "'n runtime \<Rightarrow> 'n jsval option \<Rightarrow> int option" where
  "newDate rt v =
     (case v of
        None \<Rightarrow> None
      | Some JNull \<Rightarrow> Some 0
      | Some (JBool b) \<Rightarrow> Some (if b then 1 else 0)
      | Some (JNum n) \<Rightarrow> time_clip rt n
      | Some (JStr s) \<Rightarrow> date_parse rt s)"

text \<open>\<open>v !== null\<close> and \<open>v != null\<close>.\<close>

definition notNull :: "'n jsval option \<Rightarrow> bool" where
  "notNull v = (v \<noteq> Some JNull)"

definition notNullish :: "'n jsval option \<Rightarrow> bool" where
  "notNullish v = (v \<noteq> Some JNull \<and> v \<noteq> None)"

section \<open>SchemaNormalizer (lines 8 to 35)\<close>

definition hasData :: "'n row list \<Rightarrow> bool" where
  "hasData data = (length data > 0)"

text \<open>The four blocks of the row mapper, in the source's order, each on the copy \<open>out\<close>.\<close>

definition fillTemperature :: "'n row \<Rightarrow> 'n row" where
  "fillTemperature out =
     (if out ''TEMP'' = None
      then out(''TEMP'' :=
        nullish (out ''temperature_c'')
          (nullish (out ''temp'') (nullish (out ''temperature'') (Some JNull))))
      else out)"

definition fillSalinity :: "'n row \<Rightarrow> 'n row" where
  "fillSalinity out =
     (if out ''PSAL'' = None
      then out(''PSAL'' :=
        nullish (out ''salinity_psu'')
          (nullish (out ''psal'') (nullish (out ''salinity'') (Some JNull))))
      else out)"

definition fillPressure :: "'n row \<Rightarrow> 'n row" where
  "fillPressure out =
     (if out ''PRES'' = None
      then out(''PRES'' :=
        nullish (out ''pressure_dbar'')
          (nullish (out ''pres'') (nullish (out ''pressure'') (Some JNull))))
      else out)"

definition fillTime :: "'n row \<Rightarrow> 'n row" where
  "fillTime out =
     (if out ''TIME'' = None
      then out(''TIME'' := nullish (out ''juld'') (nullish (out ''time'') (Some JNull)))
      else out)"

definition normalizeRow :: "'n row \<Rightarrow> 'n row" where
  "normalizeRow row = fillTime (fillPressure (fillSalinity (fillTemperature row)))"

definition normalizedData :: "'n row list \<Rightarrow> 'n row list" where
  "normalizedData data = (if hasData data then map normalizeRow data else [])"

section \<open>Chart specifications\<close>

text \<open>
  A chart specification keeps what the later stages and the renderer read of the Plotly object:
  its \<open>type\<close>, its traces (\<open>data\<close>) and \<open>layout.title\<close>. Of a trace it keeps \<open>type\<close>, \<open>name\<close> and
  the value arrays \<open>x\<close>, \<open>y\<close>, \<open>z\<close>; an array the trace does not have is \<open>[]\<close> (every array the
  generator does write is non-empty). Markers, colours, axis titles and heights are constants
  of each rule that no code reads back; they are left out.
\<close>

datatype 'n datum = Prim "'n jsval option" | DateObj "int option"

record 'n trace =
  trace_type :: string
  trace_name :: string
  trace_x :: "'n datum list"
  trace_y :: "'n datum list"
  trace_z :: "'n datum list"

record 'n viz =
  viz_type :: string
  viz_data :: "'n trace list"
  layout_title :: string

definition enDash :: string where
  "enDash = [CHR 0xE2, CHR 0x80, CHR 0x93]"

text \<open>\<open>ds.map(d => d.K)\<close>.\<close>

definition pluck :: "string \<Rightarrow> 'n row list \<Rightarrow> 'n datum list" where
  "pluck k ds = map (\<lambda>d. Prim (d k)) ds"

section \<open>VisualizationGenerator: createVisualizations (lines 102 to 450)\<close>

definition hasTemp :: "'n row list \<Rightarrow> bool" where
  "hasTemp nd = list_ex (\<lambda>d. d ''TEMP'' \<noteq> None \<and> d ''PRES'' \<noteq> None) nd"

definition hasSal :: "'n row list \<Rightarrow> bool" where
  "hasSal nd = list_ex (\<lambda>d. d ''PSAL'' \<noteq> None \<and> d ''PRES'' \<noteq> None) nd"

definition hasTime :: "'n row list \<Rightarrow> bool" where
  "hasTime nd = list_ex (\<lambda>d. d ''TIME'' \<noteq> None) nd"

subsection \<open>Researcher (lines 120 to 197)\<close>

definition researcherTemp :: "'n row list \<Rightarrow> 'n viz list" where
  "researcherTemp nd =
     (let tempData = filter (\<lambda>d. notNull (d ''TEMP'') \<and> notNull (d ''PRES'')) nd
      in if length tempData > 0
         then [\<lparr>viz_type = ''scatter'',
                viz_data = [\<lparr>trace_type = ''scatter'', trace_name = ''Temperature vs Pressure'',
                             trace_x = pluck ''TEMP'' tempData, trace_y = pluck ''PRES'' tempData,
                             trace_z = []\<rparr>],
                layout_title = ''Temperature vs Pressure Profile''\<rparr>]
         else [])"

definition researcherSal :: "'n row list \<Rightarrow> 'n viz list" where
  "researcherSal nd =
     (let salData = filter (\<lambda>d. notNull (d ''PSAL'') \<and> notNull (d ''PRES'')) nd
      in if length salData > 0
         then [\<lparr>viz_type = ''scatter'',
                viz_data = [\<lparr>trace_type = ''scatter'', trace_name = ''Salinity vs Pressure'',
                             trace_x = pluck ''PSAL'' salData, trace_y = pluck ''PRES'' salData,
                             trace_z = []\<rparr>],
                layout_title = ''Salinity vs Pressure Profile''\<rparr>]
         else [])"

definition researcherTime :: "'n runtime \<Rightarrow> 'n row list \<Rightarrow> 'n viz list" where
  "researcherTime rt nd =
     (let timeData = filter (\<lambda>d. notNull (d ''TIME'')) nd
      in if length timeData > 0
         then [\<lparr>viz_type = ''scatter'',
                viz_data = [\<lparr>trace_type = ''scatter'', trace_name = ''Temperature Over Time'',
                             trace_x = map (\<lambda>d. DateObj (newDate rt (d ''TIME''))) timeData,
                             trace_y = map (\<lambda>d. Prim (Some (orZero rt (d ''TEMP'')))) timeData,
                             trace_z = []\<rparr>],
                layout_title = ''Temperature Over Time''\<rparr>]
         else [])"

definition researcherRules ::
  "'n runtime \<Rightarrow> bool \<Rightarrow> bool \<Rightarrow> bool \<Rightarrow> 'n row list \<Rightarrow> 'n viz list" where
  "researcherRules rt hTemp hSal hTime nd =
     (if hTemp then researcherTemp nd else []) @
     (if hSal then researcherSal nd else []) @
     (if hTime then researcherTime rt nd else [])"

subsection \<open>Fisherman (lines 200 to 241)\<close>

definition fishermanTemp :: "'n runtime \<Rightarrow> 'n row list \<Rightarrow> 'n viz list" where
  "fishermanTemp rt nd =
     (let surface = filter (\<lambda>d. atMostTen rt (d ''PRES'') \<and> notNull (d ''TEMP'')) nd
      in if length surface > 0
         then [\<lparr>viz_type = ''histogram'',
                viz_data = [\<lparr>trace_type = ''histogram'',
                             trace_name = ''Surface Temperature Distribution'',
                             trace_x = pluck ''TEMP'' surface, trace_y = [], trace_z = []\<rparr>],
                layout_title = ''Surface Temperature Distribution (0-10 dbar)''\<rparr>]
         else [])"

definition fishermanSal :: "'n runtime \<Rightarrow> 'n row list \<Rightarrow> 'n viz list" where
  "fishermanSal rt nd =
     (let surfaceS = filter (\<lambda>d. atMostTen rt (d ''PRES'') \<and> notNull (d ''PSAL'')) nd
      in if length surfaceS > 0
         then [\<lparr>viz_type = ''histogram'',
                viz_data = [\<lparr>trace_type = ''histogram'',
                             trace_name = ''Surface Salinity Distribution'',
                             trace_x = pluck ''PSAL'' surfaceS, trace_y = [], trace_z = []\<rparr>],
                layout_title = ''Surface Salinity Distribution (0-10 dbar)''\<rparr>]
         else [])"

definition fishermanRules :: "'n runtime \<Rightarrow> bool \<Rightarrow> bool \<Rightarrow> 'n row list \<Rightarrow> 'n viz list" where
  "fishermanRules rt hTemp hSal nd =
     (if hTemp then fishermanTemp rt nd else []) @ (if hSal then fishermanSal rt nd else [])"

subsection \<open>Policymaker (lines 244 to 262)\<close>

text \<open>
  \<open>reduce((s, d) => s + (d.K || 0), 0) / Math.max(1, count)\<close>, where \<open>count\<close> is the number of
  records whose field \<open>K\<close> is neither \<open>null\<close> nor \<open>undefined\<close>, then \<open>0\<close> unless finite.
\<close>

definition policyAverage :: "'n runtime \<Rightarrow> string \<Rightarrow> 'n row list \<Rightarrow> 'n" where
  "policyAverage rt k nd =
     (let total = foldl (\<lambda>s d. js_add rt s (orZero rt (d k))) (JNum (num_of_nat rt 0)) nd;
          cnt = length (filter (\<lambda>d. notNull (d k) \<and> d k \<noteq> None) nd);
          avg = num_div rt (toNumber rt (Some total)) (num_of_nat rt (max 1 cnt))
      in if num_is_finite rt avg then avg else num_of_nat rt 0)"

definition policymakerRules :: "'n runtime \<Rightarrow> 'n row list \<Rightarrow> 'n viz list" where
  "policymakerRules rt nd =
     (let numRecords = length nd;
          avgTemp = policyAverage rt ''TEMP'' nd;
          avgSal = policyAverage rt ''PSAL'' nd
      in [\<lparr>viz_type = ''bar'',
            viz_data = [\<lparr>trace_type = ''bar'', trace_name = [],
                         trace_x = [Prim (Some (JStr ''Records'')), Prim (Some (JStr ''Avg Temp'')),
                                    Prim (Some (JStr ''Avg Salinity''))],
                         trace_y = [Prim (Some (JNum (num_of_nat rt numRecords))),
                                    Prim (Some (JNum avgTemp)), Prim (Some (JNum avgSal))],
                         trace_z = []\<rparr>],
            layout_title = ''Summary Indicators''\<rparr>])"

subsection \<open>Student (lines 265 to 305)\<close>

definition studentTempTrace :: "'n row list \<Rightarrow> 'n trace list" where
  "studentTempTrace nd =
     (let tempData = filter (\<lambda>d. notNull (d ''TEMP'') \<and> notNull (d ''PRES'')) nd
      in if length tempData > 0
         then [\<lparr>trace_type = ''scatter'', trace_name = ''Temperature'',
                trace_x = pluck ''TEMP'' tempData, trace_y = pluck ''PRES'' tempData,
                trace_z = []\<rparr>]
         else [])"

definition studentSalTrace :: "'n row list \<Rightarrow> 'n trace list" where
  "studentSalTrace nd =
     (let salData = filter (\<lambda>d. notNull (d ''PSAL'') \<and> notNull (d ''PRES'')) nd
      in if length salData > 0
         then [\<lparr>trace_type = ''scatter'', trace_name = ''Salinity'',
                trace_x = pluck ''PSAL'' salData, trace_y = pluck ''PRES'' salData,
                trace_z = []\<rparr>]
         else [])"

definition studentRules :: "bool \<Rightarrow> bool \<Rightarrow> 'n row list \<Rightarrow> 'n viz list" where
  "studentRules hTemp hSal nd =
     (let traces = (if hTemp then studentTempTrace nd else []) @
                   (if hSal then studentSalTrace nd else [])
      in if length traces > 0
         then [\<lparr>viz_type = ''scatter'', viz_data = traces, layout_title = ''Profiles Overview''\<rparr>]
         else [])"

subsection \<open>Histogram on request (lines 308 to 359)\<close>

text \<open>The test of lines 355 and 474: \<open>v.type === 'histogram' || (v.data && v.data[0]?.type === 'histogram')\<close>.\<close>

definition isHistogram :: "'n viz \<Rightarrow> bool" where
  "isHistogram v =
     (viz_type v = ''histogram'' \<or>
      (case viz_data v of [] \<Rightarrow> False | t # _ \<Rightarrow> trace_type t = ''histogram''))"

definition histTemp :: "'n runtime \<Rightarrow> 'n row list \<Rightarrow> 'n viz list" where
  "histTemp rt nd =
     (let tempSurface = filter (\<lambda>d. atMostTen rt (d ''PRES'') \<and> notNull (d ''TEMP'')) nd;
          tempAll = filter (\<lambda>d. notNull (d ''TEMP'')) nd;
          source = (if length tempSurface > 10 then tempSurface else tempAll)
      in if length source > 0
         then [\<lparr>viz_type = ''histogram'',
                viz_data = [\<lparr>trace_type = ''histogram'', trace_name = ''Temperature'',
                             trace_x = pluck ''TEMP'' source, trace_y = [], trace_z = []\<rparr>],
                layout_title = (if length tempSurface > 10
                                then ''Surface Temperature Distribution (0-10 dbar)''
                                else ''Temperature Distribution'')\<rparr>]
         else [])"

definition histSal :: "'n runtime \<Rightarrow> 'n row list \<Rightarrow> 'n viz list" where
  "histSal rt nd =
     (let salSurface = filter (\<lambda>d. atMostTen rt (d ''PRES'') \<and> notNull (d ''PSAL'')) nd;
          salAll = filter (\<lambda>d. notNull (d ''PSAL'')) nd;
          source = (if length salSurface > 10 then salSurface else salAll)
      in if length source > 0
         then [\<lparr>viz_type = ''histogram'',
                viz_data = [\<lparr>trace_type = ''histogram'', trace_name = ''Salinity'',
                             trace_x = pluck ''PSAL'' source, trace_y = [], trace_z = []\<rparr>],
                layout_title = (if length salSurface > 10
                                then ''Surface Salinity Distribution (0-10 dbar)''
                                else ''Salinity Distribution'')\<rparr>]
         else [])"

text \<open>\<open>histVisuals.forEach(h => visualizations.unshift(h))\<close> puts each one at the front in turn.\<close>

definition histogramRequest ::
  "'n runtime \<Rightarrow> bool \<Rightarrow> bool \<Rightarrow> 'n row list \<Rightarrow> 'n viz list \<Rightarrow> 'n viz list" where
  "histogramRequest rt hTemp hSal nd visualizations =
     (let histVisuals = (if hTemp then histTemp rt nd else []) @
                        (if hSal then histSal rt nd else []);
          hasAnyHistogram = list_ex isHistogram visualizations
      in if \<not> hasAnyHistogram \<and> length histVisuals > 0
         then fold (\<lambda>h vs. h # vs) histVisuals visualizations
         else visualizations)"

subsection \<open>T-S diagram and time-depth heatmap (lines 361 to 413)\<close>

definition tsTitle :: string where
  "tsTitle = ''Temperature'' @ enDash @ ''Salinity (T'' @ enDash @ ''S) Diagram''"

definition tsDiagram :: "'n row list \<Rightarrow> 'n viz list" where
  "tsDiagram nd =
     (let tsData = filter (\<lambda>d. notNull (d ''TEMP'') \<and> notNull (d ''PSAL'')) nd
      in if length tsData > 20
         then [\<lparr>viz_type = ''scatter'',
                viz_data = [\<lparr>trace_type = ''scatter'', trace_name = ''T-S Diagram'',
                             trace_x = pluck ''PSAL'' tsData, trace_y = pluck ''TEMP'' tsData,
                             trace_z = []\<rparr>],
                layout_title = tsTitle\<rparr>]
         else [])"

definition timeDepthHeatmap :: "'n runtime \<Rightarrow> 'n row list \<Rightarrow> 'n viz list" where
  "timeDepthHeatmap rt nd =
     (let td = take 5000
                 (filter (\<lambda>d. notNull (d ''TIME'') \<and> notNull (d ''PRES'') \<and> notNull (d ''TEMP'')) nd)
      in if length td > 20
         then [\<lparr>viz_type = ''heatmap'',
                viz_data = [\<lparr>trace_type = ''histogram2dcontour'', trace_name = ''Time-Depth TEMP'',
                             trace_x = map (\<lambda>d. DateObj (newDate rt (d ''TIME''))) td,
                             trace_y = pluck ''PRES'' td, trace_z = pluck ''TEMP'' td\<rparr>],
                layout_title = ''Time'' @ enDash @ ''Depth Heatmap (Temperature)''\<rparr>]
         else [])"

subsection \<open>Monthly box plots (lines 415 to 447)\<close>

text \<open>
  \<open>getUTCFullYear\<close> and \<open>getUTCMonth\<close> of a time value in milliseconds: the day number is the
  floor of \<open>t / 86400000\<close>, and the proleptic Gregorian calendar gives its year and month.
\<close>

definition civilFromDays :: "int \<Rightarrow> int \<times> int" where
  "civilFromDays day =
     (let z = day + 719468;
          era = z div 146097;
          doe = z mod 146097;
          yoe = (doe - doe div 1460 + doe div 36524 - doe div 146096) div 365;
          doy = doe - (365 * yoe + yoe div 4 - yoe div 100);
          mp = (5 * doy + 2) div 153;
          m = (if mp < 10 then mp + 3 else mp - 9);
          y = yoe + era * 400
      in (if m \<le> 2 then y + 1 else y, m))"

definition getUTCFullYear :: "int \<Rightarrow> int" where
  "getUTCFullYear t = fst (civilFromDays (t div 86400000))"

definition getUTCMonth :: "int \<Rightarrow> int" where
  "getUTCMonth t = snd (civilFromDays (t div 86400000)) - 1"

definition digitChar :: "nat \<Rightarrow> char" where
  "digitChar n = ''0123456789'' ! (n mod 10)"

function decimal :: "nat \<Rightarrow> string" where
  "decimal n = (if n < 10 then [digitChar n] else decimal (n div 10) @ [digitChar n])"
  by pat_completeness auto
termination
  by (relation "measure id") auto

declare decimal.simps [simp del]

text \<open>\<open>String(i)\<close> of an integer.\<close>

definition intToString :: "int \<Rightarrow> string" where
  "intToString i = (if i < 0 then CHR ''-'' # decimal (nat (- i)) else decimal (nat i))"

text \<open>\<open>s.padStart(2, '0')\<close>.\<close>

definition padStart2 :: "string \<Rightarrow> string" where
  "padStart2 s = replicate (2 - length s) CHR ''0'' @ s"

definition monthKey :: "int \<Rightarrow> string" where
  "monthKey t = intToString (getUTCFullYear t) @ ''-'' @ padStart2 (intToString (getUTCMonth t + 1))"

text \<open>
  \<open>byMonth\<close> is an object used as a dictionary; its entries are kept in insertion order.
  \<open>pushMonth\<close> is \<open>byMonth[k] = byMonth[k] || []; byMonth[k].push(v)\<close>.
\<close>

definition pushMonth :: "string \<Rightarrow> 'n \<Rightarrow> (string \<times> 'n list) list \<Rightarrow> (string \<times> 'n list) list" where
  "pushMonth k v byMonth =
     (case map_of byMonth k of
        None \<Rightarrow> byMonth @ [(k, [v])]
      | Some _ \<Rightarrow> map (\<lambda>(k', vs). if k' = k then (k', vs @ [v]) else (k', vs)) byMonth)"

definition addRecord ::
  "'n runtime \<Rightarrow> (string \<times> 'n list) list \<Rightarrow> 'n row \<Rightarrow> (string \<times> 'n list) list" where
  "addRecord rt byMonth d =
     (if truthy rt (d ''TIME'') \<and> notNullish (d ''TEMP'')
      then (case newDate rt (d ''TIME'') of
              None \<Rightarrow> byMonth
            | Some t \<Rightarrow> pushMonth (monthKey t) (toNumber rt (d ''TEMP'')) byMonth)
      else byMonth)"

definition groupByMonth :: "'n runtime \<Rightarrow> 'n row list \<Rightarrow> (string \<times> 'n list) list" where
  "groupByMonth rt nd = foldl (addRecord rt) [] nd"

definition monthlyBoxplots :: "'n runtime \<Rightarrow> 'n row list \<Rightarrow> 'n viz list" where
  "monthlyBoxplots rt nd =
     (let byMonth = groupByMonth rt nd;
          labels = sort (map fst byMonth)
      in if length labels \<ge> 2
         then [\<lparr>viz_type = ''box'',
                viz_data = map (\<lambda>lab. \<lparr>trace_type = ''box'', trace_name = lab, trace_x = [],
                                        trace_y = map (\<lambda>v. Prim (Some (JNum v)))
                                                    (case map_of byMonth lab of None \<Rightarrow> [] | Some vs \<Rightarrow> vs),
                                        trace_z = []\<rparr>) labels,
                layout_title = ''Monthly Temperature Distribution''\<rparr>]
         else [])"

subsection \<open>The generator\<close>

definition personaRules ::
  "'n runtime \<Rightarrow> bool \<Rightarrow> bool \<Rightarrow> bool \<Rightarrow> 'n row list \<Rightarrow> string \<Rightarrow> 'n viz list" where
  "personaRules rt hTemp hSal hTime nd prof =
     (if prof = ''researcher'' then researcherRules rt hTemp hSal hTime nd else []) @
     (if prof = ''fisherman'' then fishermanRules rt hTemp hSal nd else []) @
     (if prof = ''policymaker'' then policymakerRules rt nd else []) @
     (if prof = ''student'' then studentRules hTemp hSal nd else [])"

text \<open>
  The body of \<open>createVisualizations\<close> after its first lines, with the three availability
  predicates and the two lower-cased texts as arguments.
\<close>

definition buildVisualizations ::
  "'n runtime \<Rightarrow> bool \<Rightarrow> bool \<Rightarrow> bool \<Rightarrow> 'n row list \<Rightarrow> string \<Rightarrow> string \<Rightarrow> 'n viz list" where
  "buildVisualizations rt hTemp hSal hTime nd prof q =
     (let visualizations = personaRules rt hTemp hSal hTime nd prof;
          visualizations = (if wantsHistogram q
                            then histogramRequest rt hTemp hSal nd visualizations
                            else visualizations)
      in visualizations @
         (if hTemp \<and> hSal then tsDiagram nd else []) @
         (if hTemp \<and> hTime then timeDepthHeatmap rt nd else []) @
         (if hTemp \<and> hTime then monthlyBoxplots rt nd else []))"

text \<open>
  \<open>profession\<close> and \<open>intent\<close> are texts; an absent one is the empty text here, which
  \<open>profession || 'Researcher'\<close> and \<open>intent || ''\<close> treat as they treat \<open>undefined\<close>.
\<close>

definition createVisualizations ::
  "'n runtime \<Rightarrow> 'n row list \<Rightarrow> string \<Rightarrow> string \<Rightarrow> 'n viz list" where
  "createVisualizations rt nd profession intent =
     (let prof = toLowerCase (if profession = [] then ''Researcher'' else profession);
          q = toLowerCase intent
      in buildVisualizations rt (hasTemp nd) (hasSal nd) (hasTime nd) nd prof q)"

text \<open>Line 452: \<open>hasData ? createVisualizations() : []\<close>, on the normalized data.\<close>

definition generatedVisualizations ::
  "'n runtime \<Rightarrow> 'n row list \<Rightarrow> string \<Rightarrow> string \<Rightarrow> 'n viz list" where
  "generatedVisualizations rt data profession intent =
     (if hasData data then createVisualizations rt (normalizedData data) profession intent else [])"

section \<open>Ranker (lines 468 to 492)\<close>

text \<open>The five terms of the score of line 482 to 486, on the lower-cased title and intent.\<close>

definition pressureTerm :: "string \<Rightarrow> string \<Rightarrow> int" where
  "pressureTerm q title = (if test [[Lit ''pressure'']] title \<or> test rxRankProfile q then 3 else 0)"

definition salinityTerm :: "string \<Rightarrow> string \<Rightarrow> int" where
  "salinityTerm q title = (if test [[Lit ''salinity'']] title \<and> test rxWantsSalinity q then 2 else 0)"

definition temperatureTerm :: "string \<Rightarrow> string \<Rightarrow> int" where
  "temperatureTerm q title =
     (if test [[Lit ''temperature'']] title \<and> test rxWantsTemperature q then 2 else 0)"

definition timeTerm :: "string \<Rightarrow> string \<Rightarrow> int" where
  "timeTerm q title = (if test [[Lit ''time'']] title \<and> test rxWantsTime q then 3 else 0)"

definition surfaceTerm :: "string \<Rightarrow> string \<Rightarrow> int" where
  "surfaceTerm q title =
     (if test [[Lit ''surface''], [Lit ''distribution'']] title \<and> test rxRankSurface q then 2 else 0)"

definition score :: "string \<Rightarrow> 'n viz \<Rightarrow> int" where
  "score q viz =
     (let title = toLowerCase (layout_title viz)
      in pressureTerm q title + salinityTerm q title + temperatureTerm q title +
         timeTerm q title + surfaceTerm q title)"

text \<open>The charts of a list that score \<open>k\<close>, in the order of the list.\<close>

definition scoredAt :: "string \<Rightarrow> int \<Rightarrow> 'n viz list \<Rightarrow> 'n viz list" where
  "scoredAt q k visualizations = filter (\<lambda>v. score q v = k) visualizations"

text \<open>Lines 471 to 478: only the histograms, when one was asked for and there is one.\<close>

definition histogramFilter :: "string \<Rightarrow> 'n viz list \<Rightarrow> 'n viz list" where
  "histogramFilter q visualizations =
     (if wantsHistogram q
      then (let onlyHists = filter isHistogram visualizations
            in if length onlyHists > 0 then onlyHists else visualizations)
      else visualizations)"

text \<open>
  Lines 479 to 491. \<open>Array.prototype.sort\<close> is stable (ECMAScript 2019) and the comparator
  \<open>b.score - a.score\<close> orders by descending score, so the result is the stable sort on the
  negated score; \<open>sort_key\<close> is insertion sort, which is stable.
\<close>

definition scoringSort :: "string \<Rightarrow> 'n viz list \<Rightarrow> 'n viz list" where
  "scoringSort q visualizations =
     (let priority = map (\<lambda>(idx, viz). (idx, score q viz)) (enumerate 0 visualizations);
          sorted = sort_key (\<lambda>p. - snd p) priority
      in map (\<lambda>p. visualizations ! fst p) sorted)"

definition rankVisualizations :: "string \<Rightarrow> 'n viz list \<Rightarrow> 'n viz list" where
  "rankVisualizations intent visualizations =
     (if length visualizations > 0 \<and> intent \<noteq> []
      then (let q = toLowerCase intent
            in scoringSort q (histogramFilter q visualizations))
      else visualizations)"


section \<open>KPIAggregator (lines 455 to 466)\<close>

record 'n kpiSummary =
  numRecords :: nat
  avgTemp :: "'n option"
  avgSal :: "'n option"
  minTime :: "int option"
  maxTime :: "int option"

text \<open>\<open>v !== null && v !== undefined && !Number.isNaN(v)\<close>.\<close>

definition validValue :: "'n runtime \<Rightarrow> 'n jsval option \<Rightarrow> bool" where
  "validValue rt v =
     (notNull v \<and> v \<noteq> None \<and> \<not> (case v of Some (JNum n) \<Rightarrow> num_is_nan rt n | _ \<Rightarrow> False))"

definition average :: "'n runtime \<Rightarrow> 'n jsval option list \<Rightarrow> 'n option" where
  "average rt valid =
     (if length valid \<noteq> 0
      then Some (num_div rt (foldl (\<lambda>a b. num_add rt a (toNumber rt b)) (num_of_nat rt 0) valid)
                   (num_of_nat rt (length valid)))
      else None)"

text \<open>
  Line 462: \<open>d.TIME ? new Date(d.TIME).getTime() : null\<close>, then \<open>filter(Boolean)\<close>, which keeps
  a number that is neither NaN nor zero. \<open>None\<close> stands for both \<open>null\<close> and NaN here.
\<close>

definition timeValue :: "'n runtime \<Rightarrow> 'n row \<Rightarrow> int option" where
  "timeValue rt d = (if truthy rt (d ''TIME'') then newDate rt (d ''TIME'') else None)"

definition filterBoolean :: "int option list \<Rightarrow> int list" where
  "filterBoolean vs = concat (map (\<lambda>v. case v of None \<Rightarrow> [] | Some t \<Rightarrow> if t \<noteq> 0 then [t] else []) vs)"

definition kpiTimes :: "'n runtime \<Rightarrow> 'n row list \<Rightarrow> int list" where
  "kpiTimes rt nd = filterBoolean (map (timeValue rt) nd)"

text \<open>\<open>Math.min(...times)\<close> and \<open>Math.max(...times)\<close> of a non-empty array.\<close>

definition mathMin :: "int list \<Rightarrow> int" where
  "mathMin ts = foldl min (hd ts) (tl ts)"

definition mathMax :: "int list \<Rightarrow> int" where
  "mathMax ts = foldl max (hd ts) (tl ts)"

definition kpis :: "'n runtime \<Rightarrow> 'n row list \<Rightarrow> 'n kpiSummary option" where
  "kpis rt data =
     (if \<not> hasData data then None
      else (let nd = normalizedData data;
                validTemps = filter (validValue rt) (map (\<lambda>d. d ''TEMP'') nd);
                validSal = filter (validValue rt) (map (\<lambda>d. d ''PSAL'') nd);
                times = kpiTimes rt nd
            in Some \<lparr>numRecords = length data,
                     avgTemp = average rt validTemps,
                     avgSal = average rt validSal,
                     minTime = (if length times \<noteq> 0 then Some (mathMin times) else None),
                     maxTime = (if length times \<noteq> 0 then Some (mathMax times) else None)\<rparr>))"

section \<open>A reference runtime\<close>

text \<open>
  The closed examples below need one concrete runtime. \<open>refRuntime\<close> reads numbers as exact
  rationals with \<open>None\<close> for NaN, and parses the date-only ISO form \<open>YYYY-MM-DD\<close> (midnight UTC).
  It agrees with a JavaScript engine on the inputs the examples use: integer numbers, no text
  in a numeric position, dates in that form. Elsewhere it answers NaN or an invalid date.
\<close>

definition digitValue :: "char \<Rightarrow> nat option" where
  "digitValue c = map_of (zip ''0123456789'' [0, 1, 2, 3, 4, 5, 6, 7, 8, 9]) c"

fun parseDigits :: "nat \<Rightarrow> string \<Rightarrow> nat option" where
  "parseDigits acc [] = Some acc"
| "parseDigits acc (c # cs) =
     (case digitValue c of None \<Rightarrow> None | Some d \<Rightarrow> parseDigits (10 * acc + d) cs)"

definition isLeapYear :: "int \<Rightarrow> bool" where
  "isLeapYear y = (y mod 4 = 0 \<and> (y mod 100 \<noteq> 0 \<or> y mod 400 = 0))"

definition daysInMonth :: "int \<Rightarrow> int \<Rightarrow> int" where
  "daysInMonth y m =
     (if m = 2 then (if isLeapYear y then 29 else 28)
      else if m = 4 \<or> m = 6 \<or> m = 9 \<or> m = 11 then 30 else 31)"

definition daysFromCivil :: "int \<Rightarrow> int \<Rightarrow> int \<Rightarrow> int" where
  "daysFromCivil y m d =
     (let y' = (if m \<le> 2 then y - 1 else y);
          era = y' div 400;
          yoe = y' mod 400;
          doy = (153 * (if m > 2 then m - 3 else m + 9) + 2) div 5 + d - 1;
          doe = yoe * 365 + yoe div 4 - yoe div 100 + doy
      in era * 146097 + doe - 719468)"

definition isoDateParse :: "string \<Rightarrow> int option" where
  "isoDateParse s =
     (if length s = 10 \<and> s ! 4 = CHR ''-'' \<and> s ! 7 = CHR ''-''
      then (case (parseDigits 0 (take 4 s), parseDigits 0 (take 2 (drop 5 s)),
                  parseDigits 0 (drop 8 s)) of
              (Some y, Some m, Some d) \<Rightarrow>
                if 1 \<le> m \<and> m \<le> 12 \<and> 1 \<le> d \<and> int d \<le> daysInMonth (int y) (int m)
                then Some (daysFromCivil (int y) (int m) (int d) * 86400000)
                else None
            | _ \<Rightarrow> None)
      else None)"

definition refTimeClip :: "rat option \<Rightarrow> int option" where
  "refTimeClip n =
     (case n of
        None \<Rightarrow> None
      | Some r \<Rightarrow> if \<bar>r\<bar> > 8640000000000000 then None
                  else Some (if r \<ge> 0 then \<lfloor>r\<rfloor> else \<lceil>r\<rceil>))"

definition refAdd :: "rat option \<Rightarrow> rat option \<Rightarrow> rat option" where
  "refAdd a b = (case (a, b) of (Some x, Some y) \<Rightarrow> Some (x + y) | _ \<Rightarrow> None)"

definition refRuntime :: "(rat option) runtime" where
  "refRuntime =
     \<lparr>num_of_nat = (\<lambda>n. Some (of_nat n)),
      num_nan = None,
      num_is_nan = (\<lambda>a. a = None),
      num_truthy = (\<lambda>a. a \<noteq> None \<and> a \<noteq> Some 0),
      num_le = (\<lambda>a b. case (a, b) of (Some x, Some y) \<Rightarrow> x \<le> y | _ \<Rightarrow> False),
      num_add = refAdd,
      num_div = (\<lambda>a b. case (a, b) of (Some x, Some y) \<Rightarrow> if y = 0 then None else Some (x / y)
                                     | _ \<Rightarrow> None),
      num_is_finite = (\<lambda>a. a \<noteq> None),
      str_to_num = (\<lambda>s. None),
      js_add = (\<lambda>a b. case (a, b) of (JNum x, JNum y) \<Rightarrow> JNum (refAdd x y) | _ \<Rightarrow> JNum None),
      time_clip = refTimeClip,
      date_parse = isoDateParse\<rparr>"

section \<open>Example data\<close>

text \<open>Three charts as the Researcher rules title them, with their traces left out.\<close>

definition chartTempPres :: "(rat option) viz" where
  "chartTempPres =
     \<lparr>viz_type = ''scatter'', viz_data = [], layout_title = ''Temperature vs Pressure Profile''\<rparr>"

definition chartSalPres :: "(rat option) viz" where
  "chartSalPres =
     \<lparr>viz_type = ''scatter'', viz_data = [], layout_title = ''Salinity vs Pressure Profile''\<rparr>"

definition chartTempTime :: "(rat option) viz" where
  "chartTempTime =
     \<lparr>viz_type = ''scatter'', viz_data = [], layout_title = ''Temperature Over Time''\<rparr>"

text \<open>Records as the query layer delivers them, written as JSON objects.\<close>

definition rowAliased :: "(rat option) row" where
  "rowAliased = map_of [(''temperature_c'', JNum (Some 10)), (''pressure_dbar'', JNum (Some 5))]"

definition rowMixed :: "(rat option) row" where
  "rowMixed =
     map_of [(''TEMP'', JNum (Some 10)), (''temp'', JNum (Some 99)), (''station'', JStr ''A'')]"

definition rowTempSal :: "(rat option) row" where
  "rowTempSal = map_of [(''TEMP'', JNum (Some 10)), (''PSAL'', JNum (Some 35))]"

definition rowEpochText :: "(rat option) row" where
  "rowEpochText = map_of [(''TIME'', JStr ''1970-01-01'')]"

definition rowEpoch :: "(rat option) row" where
  "rowEpoch = map_of [(''TIME'', JNum (Some 0)), (''TEMP'', JNum (Some 1))]"

definition rowEpochNextDay :: "(rat option) row" where
  "rowEpochNextDay = map_of [(''TIME'', JNum (Some 86400000)), (''TEMP'', JNum (Some 1))]"

definition rowJan5 :: "(rat option) row" where
  "rowJan5 = map_of [(''TIME'', JStr ''2023-01-05''), (''TEMP'', JNum (Some 2))]"

definition rowJan20 :: "(rat option) row" where
  "rowJan20 = map_of [(''TIME'', JStr ''2023-01-20''), (''TEMP'', JNum (Some 3))]"

section \<open>Normalization\<close>

lemma nullish_defined: "b \<noteq> None \<Longrightarrow> nullish a b \<noteq> None"
  by (cases a) (auto simp: nullish_def split: jsval.splits)

lemma fillTemperature_apply:
  "fillTemperature out k =
     (if k = ''TEMP'' \<and> out ''TEMP'' = None
      then nullish (out ''temperature_c'') (nullish (out ''temp'') (nullish (out ''temperature'') (Some JNull)))
      else out k)"
  by (simp add: fillTemperature_def)

lemma fillSalinity_apply:
  "fillSalinity out k =
     (if k = ''PSAL'' \<and> out ''PSAL'' = None
      then nullish (out ''salinity_psu'') (nullish (out ''psal'') (nullish (out ''salinity'') (Some JNull)))
      else out k)"
  by (simp add: fillSalinity_def)

lemma fillPressure_apply:
  "fillPressure out k =
     (if k = ''PRES'' \<and> out ''PRES'' = None
      then nullish (out ''pressure_dbar'') (nullish (out ''pres'') (nullish (out ''pressure'') (Some JNull)))
      else out k)"
  by (simp add: fillPressure_def)

lemma fillTime_apply:
  "fillTime out k =
     (if k = ''TIME'' \<and> out ''TIME'' = None
      then nullish (out ''juld'') (nullish (out ''time'') (Some JNull))
      else out k)"
  by (simp add: fillTime_def)

lemmas fill_apply = fillTemperature_apply fillSalinity_apply fillPressure_apply fillTime_apply

lemma normalizeRow_other:
  "k \<noteq> ''TEMP'' \<Longrightarrow> k \<noteq> ''PSAL'' \<Longrightarrow> k \<noteq> ''PRES'' \<Longrightarrow> k \<noteq> ''TIME'' \<Longrightarrow> normalizeRow r k = r k"
  by (simp add: normalizeRow_def fill_apply)

lemma normalizeRow_TEMP:
  "normalizeRow r ''TEMP'' =
     (if r ''TEMP'' = None
      then nullish (r ''temperature_c'') (nullish (r ''temp'') (nullish (r ''temperature'') (Some JNull)))
      else r ''TEMP'')"
  by (simp add: normalizeRow_def fill_apply)

lemma normalizeRow_PSAL:
  "normalizeRow r ''PSAL'' =
     (if r ''PSAL'' = None
      then nullish (r ''salinity_psu'') (nullish (r ''psal'') (nullish (r ''salinity'') (Some JNull)))
      else r ''PSAL'')"
  by (simp add: normalizeRow_def fill_apply)

lemma normalizeRow_PRES:
  "normalizeRow r ''PRES'' =
     (if r ''PRES'' = None
      then nullish (r ''pressure_dbar'') (nullish (r ''pres'') (nullish (r ''pressure'') (Some JNull)))
      else r ''PRES'')"
  by (simp add: normalizeRow_def fill_apply)

lemma normalizeRow_TIME:
  "normalizeRow r ''TIME'' =
     (if r ''TIME'' = None
      then nullish (r ''juld'') (nullish (r ''time'') (Some JNull))
      else r ''TIME'')"
  by (simp add: normalizeRow_def fill_apply)

lemma nullish3_defined: "nullish a (nullish b (nullish c (Some JNull))) \<noteq> None"
  by (intro nullish_defined) simp

lemma nullish2_defined: "nullish a (nullish b (Some JNull)) \<noteq> None"
  by (intro nullish_defined) simp

lemma normalizeRow_canonical_defined:
  "normalizeRow r ''TEMP'' \<noteq> None" "normalizeRow r ''PSAL'' \<noteq> None"
  "normalizeRow r ''PRES'' \<noteq> None" "normalizeRow r ''TIME'' \<noteq> None"
  by (simp_all add: normalizeRow_TEMP normalizeRow_PSAL normalizeRow_PRES normalizeRow_TIME
      nullish3_defined nullish2_defined del: not_None_eq)

lemma fill_id:
  "out ''TEMP'' \<noteq> None \<Longrightarrow> fillTemperature out = out"
  "out ''PSAL'' \<noteq> None \<Longrightarrow> fillSalinity out = out"
  "out ''PRES'' \<noteq> None \<Longrightarrow> fillPressure out = out"
  "out ''TIME'' \<noteq> None \<Longrightarrow> fillTime out = out"
  by (simp_all add: fillTemperature_def fillSalinity_def fillPressure_def fillTime_def del: not_None_eq)

lemma normalizeRow_fixed:
  assumes "r ''TEMP'' \<noteq> None" "r ''PSAL'' \<noteq> None" "r ''PRES'' \<noteq> None" "r ''TIME'' \<noteq> None"
  shows "normalizeRow r = r"
  using assms by (simp add: normalizeRow_def fill_id del: not_None_eq)

lemma normalizeRow_idem: "normalizeRow (normalizeRow r) = normalizeRow r"
  by (rule normalizeRow_fixed) (rule normalizeRow_canonical_defined)+

section \<open>Patterns and the ranking sort\<close>

lemma matchSeq_Lit: "matchSeq [Lit p] prev s = startsWith p s"
  by simp



lemma contains_nonempty: "contains (c # p) s \<Longrightarrow> s \<noteq> []"
  by (cases s) simp_all

lemma startsWith_toLowerCase:
  "startsWith p s \<Longrightarrow> startsWith (toLowerCase p) (toLowerCase s)"
  by (induction p s rule: startsWith.induct) (simp_all add: toLowerCase_def)

lemma contains_toLowerCase:
  "contains p s \<Longrightarrow> contains (toLowerCase p) (toLowerCase s)"
proof (induction s)
  case Nil
  then show ?case by (simp add: toLowerCase_def)
next
  case (Cons c cs)
  then show ?case
    using startsWith_toLowerCase[of p "c # cs"] by (auto simp: toLowerCase_def)
qed

lemma sort_key_map_commute:
  "(\<And>x. x \<in> set xs \<Longrightarrow> f x = g (h x)) \<Longrightarrow> map h (sort_key f xs) = sort_key g (map h xs)"
proof (induction xs)
  case Nil
  then show ?case by simp
next
  case (Cons a xs)
  have ins: "map h (insort_key f a ys) = insort_key g (h a) (map h ys)"
    if "\<And>x. x \<in> set ys \<Longrightarrow> f x = g (h x)" "f a = g (h a)" for ys
    using that by (induction ys) auto
  have "map h (sort_key f xs) = sort_key g (map h xs)"
    using Cons by simp
  moreover have "\<And>x. x \<in> set (sort_key f xs) \<Longrightarrow> f x = g (h x)"
    using Cons.prems by simp
  ultimately show ?case
    using ins[of "sort_key f xs"] Cons.prems by simp
qed

lemma enumerate_lookup: "map (\<lambda>p. xs ! fst p) (map (\<lambda>(idx, v). (idx, sc v)) (enumerate 0 xs)) = xs"
proof -
  have aux: "map (\<lambda>p. f (fst p)) (map (\<lambda>(idx, v). (idx, sc v)) ys) = map f (map fst ys)"
    for f :: "nat \<Rightarrow> 'a" and ys :: "(nat \<times> 'a) list"
    by (induction ys) auto
  show ?thesis
    by (simp only: aux map_fst_enumerate add_0 map_nth)
qed

lemma scoringSort_eq: "scoringSort q vs = sort_key (\<lambda>v. - score q v) vs"
proof -
  let ?pr = "map (\<lambda>(idx, v). (idx, score q v)) (enumerate 0 vs)"
  have key: "- snd p = - score q (vs ! fst p)" if "p \<in> set ?pr" for p
    using that by (auto simp: enumerate_eq_zip in_set_zip)
  have "map (\<lambda>p. vs ! fst p) (sort_key (\<lambda>p. - snd p) ?pr)
        = sort_key (\<lambda>v. - score q v) (map (\<lambda>p. vs ! fst p) ?pr)"
    by (rule sort_key_map_commute) (rule key)
  then show ?thesis
    by (simp only: scoringSort_def Let_def enumerate_lookup)
qed

lemma rank_as_sort:
  fixes vs :: "'n viz list"
  shows "rankVisualizations intent vs =
     (if vs \<noteq> [] \<and> intent \<noteq> []
      then sort_key (\<lambda>v. - score (toLowerCase intent) v) (histogramFilter (toLowerCase intent) vs)
      else histogramFilter (toLowerCase intent) vs)"
proof -
  have "\<not> wantsHistogram []"
    by (simp add: wantsHistogram_def test_def rxWantsHistogram_def isWordOpt_def nextChar_def)
  then have "histogramFilter (toLowerCase []) vs = vs"
    by (simp add: histogramFilter_def toLowerCase_def)
  moreover have "histogramFilter q ([] :: 'n viz list) = []" for q :: string
    by (simp add: histogramFilter_def)
  ultimately show ?thesis
    by (auto simp: rankVisualizations_def Let_def scoringSort_eq)
qed

section \<open>The shape of generated charts\<close>














section \<open>The generator on normalized data\<close>

lemma normalizedData_map: "normalizedData data = map normalizeRow data"
  by (simp add: normalizedData_def hasData_def)

lemma normalized_defined:
  assumes "d \<in> set (normalizedData data)"
  shows "d ''TEMP'' \<noteq> None \<and> d ''PSAL'' \<noteq> None \<and> d ''PRES'' \<noteq> None \<and> d ''TIME'' \<noteq> None"
proof -
  from assms obtain r where "d = normalizeRow r"
    by (auto simp: normalizedData_map)
  then show ?thesis
    using normalizeRow_canonical_defined[of r] by simp
qed

lemma normalized_has:
  assumes "data \<noteq> []"
  shows "hasTemp (normalizedData data)" "hasSal (normalizedData data)" "hasTime (normalizedData data)"
proof -
  from assms obtain r rs where "data = r # rs" by (cases data) auto
  then have "normalizeRow r \<in> set (normalizedData data)"
    by (simp add: normalizedData_map)
  then show "hasTemp (normalizedData data)" "hasSal (normalizedData data)" "hasTime (normalizedData data)"
    using normalizeRow_canonical_defined[of r]
    unfolding hasTemp_def hasSal_def hasTime_def list_ex_iff by blast+
qed





section \<open>Month groups and time values\<close>

lemma pushMonth_keys:
  "map fst (pushMonth k v bm) = (if k \<in> set (map fst bm) then map fst bm else map fst bm @ [k])"
proof -
  have "map fst (map (\<lambda>(k', vs). if k' = k then (k', vs @ [v]) else (k', vs)) bm) = map fst bm"
    by (induction bm) auto
  moreover have "map_of bm k = None \<longleftrightarrow> k \<notin> set (map fst bm)"
    by (simp add: map_of_eq_None_iff)
  ultimately show ?thesis
    by (cases "map_of bm k") (auto simp: pushMonth_def)
qed

lemma addRecord_keys:
  "map fst (addRecord rt bm d) =
     (if truthy rt (d ''TIME'') \<and> notNullish (d ''TEMP'')
      then (case newDate rt (d ''TIME'') of
              None \<Rightarrow> map fst bm
            | Some t \<Rightarrow> if monthKey t \<in> set (map fst bm) then map fst bm
                        else map fst bm @ [monthKey t])
      else map fst bm)"
  by (simp add: addRecord_def pushMonth_keys split: option.splits)

lemma foldl_addRecord_distinct:
  "distinct (map fst bm) \<Longrightarrow> distinct (map fst (foldl (addRecord rt) bm nd))"
proof (induction nd arbitrary: bm)
  case Nil
  then show ?case by simp
next
  case (Cons d nd)
  have "distinct (map fst (addRecord rt bm d))"
    using Cons.prems by (auto simp: addRecord_keys split: option.splits)
  then show ?case
    using Cons.IH by simp
qed

lemma foldl_addRecord_set:
  "set (map fst (foldl (addRecord rt) bm nd)) =
     set (map fst bm) \<union>
     {monthKey t | t d. d \<in> set nd \<and> truthy rt (d ''TIME'') \<and> notNullish (d ''TEMP'')
        \<and> newDate rt (d ''TIME'') = Some t}"
proof (induction nd arbitrary: bm)
  case Nil
  then show ?case by simp
next
  case (Cons d nd)
  have step: "set (map fst (addRecord rt bm d)) =
      set (map fst bm) \<union>
      {monthKey t | t. truthy rt (d ''TIME'') \<and> notNullish (d ''TEMP'')
        \<and> newDate rt (d ''TIME'') = Some t}"
    by (auto simp: addRecord_keys split: option.splits)
  have "set (map fst (foldl (addRecord rt) bm (d # nd)))
      = set (map fst (addRecord rt bm d)) \<union>
        {monthKey t | t d'. d' \<in> set nd \<and> truthy rt (d' ''TIME'') \<and> notNullish (d' ''TEMP'')
          \<and> newDate rt (d' ''TIME'') = Some t}"
    using Cons.IH[of "addRecord rt bm d"] by simp
  then show ?case
    unfolding step by auto
qed

text \<open>
  The box plot on the records line 419 lets through (TIME true, TEMP neither null nor
  undefined, a valid date): its month keys are theirs, each once; it is emitted when there
  are two or more, and its series are the keys in ascending order.
\<close>

lemma boxplot_grouping:
  fixes rt :: "'n runtime" and nd :: "'n row list"
  defines "months \<equiv> {monthKey t | t d. d \<in> set nd \<and> truthy rt (d ''TIME'')
      \<and> notNullish (d ''TEMP'') \<and> newDate rt (d ''TIME'') = Some t}"
  shows "set (map fst (groupByMonth rt nd)) = months"
    and "distinct (map fst (groupByMonth rt nd))"
    and "monthlyBoxplots rt nd \<noteq> [] \<longleftrightarrow> 2 \<le> card months"
    and "v \<in> set (monthlyBoxplots rt nd) \<Longrightarrow>
           map trace_name (viz_data v) = sorted_list_of_set months"
proof -
  let ?keys = "map fst (groupByMonth rt nd)"
  show s: "set ?keys = months"
    using foldl_addRecord_set[of rt "[]" nd] by (simp add: groupByMonth_def months_def)
  show d: "distinct ?keys"
    using foldl_addRecord_distinct[of "[]" rt nd] by (simp add: groupByMonth_def)
  have len: "length ?keys = card months"
    using s d distinct_card[of ?keys] by simp
  then show "monthlyBoxplots rt nd \<noteq> [] \<longleftrightarrow> 2 \<le> card months"
    by (simp add: monthlyBoxplots_def Let_def)
  have srt: "sort ?keys = sorted_list_of_set months"
    using s d by (metis sorted_list_of_set_sort_remdups distinct_remdups_id)
  show "map trace_name (viz_data v) = sorted_list_of_set months"
    if "v \<in> set (monthlyBoxplots rt nd)"
    using that srt by (auto simp: monthlyBoxplots_def Let_def comp_def split: if_splits)
qed

lemma mathMin_Min: "ts \<noteq> [] \<Longrightarrow> mathMin ts = Min (set ts)"
proof -
  assume "ts \<noteq> []"
  then obtain x xs where ts: "ts = x # xs" by (cases ts) auto
  have "foldl min x xs = fold min xs x"
    by (simp add: foldl_conv_fold min.commute)
  then show ?thesis
    using Min.set_eq_fold[of x xs] by (simp add: ts mathMin_def)
qed

lemma mathMax_Max: "ts \<noteq> [] \<Longrightarrow> mathMax ts = Max (set ts)"
proof -
  assume "ts \<noteq> []"
  then obtain x xs where ts: "ts = x # xs" by (cases ts) auto
  have "foldl max x xs = fold max xs x"
    by (simp add: foldl_conv_fold max.commute)
  then show ?thesis
    using Max.set_eq_fold[of x xs] by (simp add: ts mathMax_def)
qed

text \<open>
  The time values the summary keeps: those of the records whose TIME is true and parses to a
  time value other than 0.
\<close>

lemma kpiTimes_set:
  "set (kpiTimes rt nd) =
     {t. t \<noteq> 0 \<and> (\<exists>d \<in> set nd. truthy rt (d ''TIME'') \<and> newDate rt (d ''TIME'') = Some t)}"
  by (auto simp: kpiTimes_def filterBoolean_def timeValue_def split: option.splits if_splits)

section \<open>The score terms\<close>

lemma testFrom_mono:
  "set re \<subseteq> set re' \<Longrightarrow> testFrom re prev s \<Longrightarrow> testFrom re' prev s"
  by (induction s arbitrary: prev) (auto simp: list_ex_iff)

lemma rankSurface_wantsSurface: "test rxRankSurface q \<Longrightarrow> wantsSurface q"
  unfolding wantsSurface_def test_def
  by (rule testFrom_mono[rotated]) (auto simp: rxRankSurface_def rxWantsSurface_def)

text \<open>
  The four terms of lines 483 to 486 are added when the title test and the intent flag both
  hold (for the surface term the ranker's narrower pattern implies the flag); the pressure term
  of line 482 is added when either of its tests holds.
\<close>

lemma score_terms:
  "salinityTerm q title = (if test [[Lit ''salinity'']] title \<and> wantsSalinity q then 2 else 0)"
  "temperatureTerm q title = (if test [[Lit ''temperature'']] title \<and> wantsTemperature q then 2 else 0)"
  "timeTerm q title = (if test [[Lit ''time'']] title \<and> wantsTime q then 3 else 0)"
  "surfaceTerm q title \<noteq> 0 \<Longrightarrow>
     test [[Lit ''surface''], [Lit ''distribution'']] title \<and> wantsSurface q"
  "pressureTerm q title = (if test [[Lit ''pressure'']] title \<or> test rxRankProfile q then 3 else 0)"
  by (auto simp: salinityTerm_def temperatureTerm_def timeTerm_def surfaceTerm_def pressureTerm_def
      wantsSalinity_def wantsTemperature_def wantsTime_def rankSurface_wantsSurface
      split: if_splits)
section \<open>The claims\<close>

lemma personaRules_unrecognized:
  "prof \<notin> set [''researcher'', ''fisherman'', ''policymaker'', ''student''] \<Longrightarrow>
     personaRules rt a b c nd prof = []"
  by (simp add: personaRules_def)

lemma generic_empty:
  "histogramRequest rt True True [] [] = []" "tsDiagram [] = []"
  "timeDepthHeatmap rt [] = []" "monthlyBoxplots rt [] = []"
  by (simp_all add: histogramRequest_def histTemp_def histSal_def tsDiagram_def
      timeDepthHeatmap_def monthlyBoxplots_def groupByMonth_def Let_def)

text \<open>
  Claim C1 (the code differs). Line 482 joins the two conditions of the pressure term with
  \<open>||\<close> where lines 483 to 486 use \<open>&&\<close>. The term adds 3 to "Temperature Over Time" for the
  intent "profile" although that title does not mention pressure, and adds 3 to "Salinity vs
  Pressure Profile" for the intent "salinity" although that text matches no profile pattern.
\<close>

theorem pressure_term_either:
  "pressureTerm (toLowerCase ''profile'') (toLowerCase ''Temperature Over Time'') = 3
   \<and> \<not> test [[Lit ''pressure'']] (toLowerCase ''Temperature Over Time'')
   \<and> pressureTerm (toLowerCase ''salinity'') (toLowerCase ''Salinity vs Pressure Profile'') = 3
   \<and> \<not> wantsProfile (toLowerCase ''salinity'')
   \<and> score (toLowerCase ''profile'') chartTempTime = 3"
  by code_simp

text \<open>
  Claim C2, as stated, fails: for one record with a temperature and a pressure the persona
  "Captain" gives no chart and "Researcher" gives the temperature profile.
\<close>

theorem unrecognized_persona_counterexample:
  "generatedVisualizations refRuntime [rowAliased] ''Captain'' []
     \<noteq> generatedVisualizations refRuntime [rowAliased] ''Researcher'' []"
  by code_simp

text \<open>
  Claim C2, amended. For every dataset and intent, an empty (absent) persona gives the charts
  of "Researcher"; a persona that is not empty and, lower-cased, is none of the four names
  selects no persona rule: the generator then returns the histograms made on request followed
  by the T-S diagram, the heatmap and the box plot, whatever the persona's text.
\<close>

theorem persona_fallback:
  "generatedVisualizations rt data [] intent = generatedVisualizations rt data ''Researcher'' intent
   \<and> (p \<noteq> [] \<and> toLowerCase p \<notin> set [''researcher'', ''fisherman'', ''policymaker'', ''student'']
      \<longrightarrow> generatedVisualizations rt data p intent
            = (if wantsHistogram (toLowerCase intent)
               then histogramRequest rt True True (normalizedData data) [] else [])
              @ tsDiagram (normalizedData data)
              @ timeDepthHeatmap rt (normalizedData data)
              @ monthlyBoxplots rt (normalizedData data))"
proof -
  have one: "generatedVisualizations rt data [] intent
      = generatedVisualizations rt data ''Researcher'' intent"
    by (simp add: generatedVisualizations_def createVisualizations_def)
  have two: "generatedVisualizations rt data p intent
      = (if wantsHistogram (toLowerCase intent)
         then histogramRequest rt True True (normalizedData data) [] else [])
        @ tsDiagram (normalizedData data)
        @ timeDepthHeatmap rt (normalizedData data)
        @ monthlyBoxplots rt (normalizedData data)"
    if p: "p \<noteq> []"
      and u: "toLowerCase p \<notin> set [''researcher'', ''fisherman'', ''policymaker'', ''student'']"
  proof (cases "data = []")
    case True
    then show ?thesis
      by (simp add: generatedVisualizations_def hasData_def normalizedData_def generic_empty)
  next
    case False
    have "personaRules rt True True True (normalizedData data) (toLowerCase p) = []"
      using u by (rule personaRules_unrecognized)
    with False p show ?thesis
      using normalized_has[of data]
      by (simp add: generatedVisualizations_def createVisualizations_def hasData_def Let_def
          buildVisualizations_def)
  qed
  from one two show ?thesis by blast
qed

theorem persona_fallback_witness:
  "''Captain'' \<noteq> []
   \<and> toLowerCase ''Captain'' \<notin> set [''researcher'', ''fisherman'', ''policymaker'', ''student'']
   \<and> generatedVisualizations refRuntime [rowAliased] ''Captain'' [] = []
   \<and> generatedVisualizations refRuntime [rowAliased] [] []
       = generatedVisualizations refRuntime [rowAliased] ''Researcher'' []"
proof -
  have n: "''Captain'' \<noteq> []"
    by simp
  have u: "toLowerCase ''Captain'' \<notin> set [''researcher'', ''fisherman'', ''policymaker'', ''student'']"
    by code_simp
  have e: "(if wantsHistogram (toLowerCase [])
            then histogramRequest refRuntime True True (normalizedData [rowAliased]) [] else [])
           @ tsDiagram (normalizedData [rowAliased])
           @ timeDepthHeatmap refRuntime (normalizedData [rowAliased])
           @ monthlyBoxplots refRuntime (normalizedData [rowAliased]) = []"
    by code_simp
  note t = persona_fallback[of refRuntime "[rowAliased]" "[]" "''Captain''"]
  from t n u have "generatedVisualizations refRuntime [rowAliased] ''Captain'' []
      = (if wantsHistogram (toLowerCase [])
         then histogramRequest refRuntime True True (normalizedData [rowAliased]) [] else [])
        @ tsDiagram (normalizedData [rowAliased])
        @ timeDepthHeatmap refRuntime (normalizedData [rowAliased])
        @ monthlyBoxplots refRuntime (normalizedData [rowAliased])"
    by blast
  then have c: "generatedVisualizations refRuntime [rowAliased] ''Captain'' [] = []"
    by (simp only: e)
  from t have "generatedVisualizations refRuntime [rowAliased] [] []
      = generatedVisualizations refRuntime [rowAliased] ''Researcher'' []"
    by (rule conjunct1)
  with n u c show ?thesis by blast
qed



text \<open>
  Claim C4. Normalization is idempotent, on a dataset and on each record: a second pass finds
  the four canonical fields defined and changes nothing.
\<close>

theorem normalize_idempotent:
  "normalizedData (normalizedData X) = normalizedData X
   \<and> normalizeRow (normalizeRow r) = normalizeRow r"
  by (simp add: normalizedData_def hasData_def normalizeRow_idem)

theorem normalize_idempotent_witness:
  "normalizedData (normalizedData [rowAliased, rowMixed]) = normalizedData [rowAliased, rowMixed]"
  using normalize_idempotent[of "[rowAliased, rowMixed]" rowMixed] by (rule conjunct1)

text \<open>
  Claim C5 (the code differs). Line 462 tests \<open>d.TIME\<close> for truth and \<open>filter(Boolean)\<close> drops
  the time value 0 with the NaNs: a record whose TIME is "1970-01-01" parses to the valid time
  value 0 and is discarded, so the summary of that dataset has no time span.
\<close>

theorem kpis_drops_epoch:
  "newDate refRuntime (rowEpochText ''TIME'') = Some 0
   \<and> kpis refRuntime [rowEpochText]
       = Some \<lparr>numRecords = 1, avgTemp = None, avgSal = None, minTime = None, maxTime = None\<rparr>"
  by code_simp



text \<open>
  Claim C7 (the code differs). Line 419 tests \<open>d.TIME\<close> for truth, where the time series and
  the heatmap test \<open>d.TIME !== null\<close>: a record whose TIME is the number 0 has a TEMP and the
  valid month 1970-01, and is not grouped. With a second record of January 2023 there are two
  months and no box plot; one day later (TIME 86400000) the box plot has both months. The two
  January dates of the claim do share the group 2023-01.
\<close>

theorem boxplot_drops_epoch:
  "newDate refRuntime (rowEpoch ''TIME'') = Some 0
   \<and> monthKey 0 = ''1970-01''
   \<and> filter (\<lambda>v. viz_type v = ''box'')
       (generatedVisualizations refRuntime [rowEpoch, rowJan5] ''Researcher'' []) = []
   \<and> map (\<lambda>v. map trace_name (viz_data v))
       (filter (\<lambda>v. viz_type v = ''box'')
         (generatedVisualizations refRuntime [rowEpochNextDay, rowJan5] ''Researcher'' []))
       = [[''1970-01'', ''2023-01'']]
   \<and> groupByMonth refRuntime (normalizedData [rowJan5, rowJan20]) = [(''2023-01'', [Some 2, Some 3])]"
  by code_simp

text \<open>
  Claim C8. Ranking is stable and neither creates nor duplicates a chart: for every list of
  charts and every intent, the charts of any one score stand in the ranked output in the order
  they have in the ranker's input after its histogram filter; the output has exactly the charts
  of that filtered input, each as often; and the filtered input is the input itself or its
  histograms in their order.
\<close>

theorem rank_stable:
  "scoredAt (toLowerCase intent) k (rankVisualizations intent specs)
     = scoredAt (toLowerCase intent) k (histogramFilter (toLowerCase intent) specs)
   \<and> mset (rankVisualizations intent specs) = mset (histogramFilter (toLowerCase intent) specs)
   \<and> (histogramFilter (toLowerCase intent) specs = specs
      \<or> histogramFilter (toLowerCase intent) specs = filter isHistogram specs)"
proof -
  let ?q = "toLowerCase intent"
  have "filter (\<lambda>v. - score ?q v = - k) (sort_key (\<lambda>v. - score ?q v) xs)
        = filter (\<lambda>v. - score ?q v = - k) xs" for xs :: "'a viz list"
    by (rule sort_key_stable)
  then have st: "scoredAt ?q k (sort_key (\<lambda>v. - score ?q v) xs) = scoredAt ?q k xs"
    for xs :: "'a viz list"
    by (simp add: scoredAt_def)
  show ?thesis
    by (auto simp: rank_as_sort st histogramFilter_def Let_def)
qed

text \<open>
  With the intent "trend of salinity" the salinity profile scores 5 and the other two charts
  score 3; the two stay in their order.
\<close>

theorem rank_stable_witness:
  "scoredAt (toLowerCase ''trend of salinity'') 3
     (rankVisualizations ''trend of salinity'' [chartTempPres, chartSalPres, chartTempTime])
     = [chartTempPres, chartTempTime]"
proof -
  have "scoredAt (toLowerCase ''trend of salinity'') 3
      (histogramFilter (toLowerCase ''trend of salinity'') [chartTempPres, chartSalPres, chartTempTime])
      = [chartTempPres, chartTempTime]"
    by code_simp
  then show ?thesis
    using rank_stable[of "''trend of salinity''" 3 "[chartTempPres, chartSalPres, chartTempTime]"]
    by simp
qed

lemma fill_kept:
  "out k \<noteq> None \<Longrightarrow> fillTemperature out k = out k"
  "out k \<noteq> None \<Longrightarrow> fillSalinity out k = out k"
  "out k \<noteq> None \<Longrightarrow> fillPressure out k = out k"
  "out k \<noteq> None \<Longrightarrow> fillTime out k = out k"
  by (auto simp: fill_apply)

text \<open>
  Claim C9. Normalizing a record leaves every field other than TEMP, PSAL, PRES and TIME as
  it is, leaves any field that is defined as it is, and gives a canonical field that is
  undefined its first alias that is neither null nor undefined, or null when there is none.
\<close>

theorem normalize_frame:
  "(k \<notin> set [''TEMP'', ''PSAL'', ''PRES'', ''TIME''] \<longrightarrow> normalizeRow r k = r k)
   \<and> (r k \<noteq> None \<longrightarrow> normalizeRow r k = r k)
   \<and> (r ''TEMP'' = None \<longrightarrow> normalizeRow r ''TEMP''
        = nullish (r ''temperature_c'') (nullish (r ''temp'') (nullish (r ''temperature'') (Some JNull))))
   \<and> (r ''PSAL'' = None \<longrightarrow> normalizeRow r ''PSAL''
        = nullish (r ''salinity_psu'') (nullish (r ''psal'') (nullish (r ''salinity'') (Some JNull))))
   \<and> (r ''PRES'' = None \<longrightarrow> normalizeRow r ''PRES''
        = nullish (r ''pressure_dbar'') (nullish (r ''pres'') (nullish (r ''pressure'') (Some JNull))))
   \<and> (r ''TIME'' = None \<longrightarrow> normalizeRow r ''TIME''
        = nullish (r ''juld'') (nullish (r ''time'') (Some JNull)))
   \<and> normalizeRow r ''TEMP'' \<noteq> None \<and> normalizeRow r ''PSAL'' \<noteq> None
   \<and> normalizeRow r ''PRES'' \<noteq> None \<and> normalizeRow r ''TIME'' \<noteq> None"
proof -
  have other: "normalizeRow r k = r k" if "k \<notin> set [''TEMP'', ''PSAL'', ''PRES'', ''TIME'']"
    using that by (simp add: normalizeRow_other)
  have kept: "normalizeRow r k = r k" if d: "r k \<noteq> None"
  proof -
    have 1: "fillTemperature r k = r k"
      using d by (rule fill_kept(1))
    have 2: "fillSalinity (fillTemperature r) k = r k"
      using fill_kept(2)[of "fillTemperature r" k] 1 d by simp
    have 3: "fillPressure (fillSalinity (fillTemperature r)) k = r k"
      using fill_kept(3)[of "fillSalinity (fillTemperature r)" k] 2 d by simp
    have "fillTime (fillPressure (fillSalinity (fillTemperature r))) k = r k"
      using fill_kept(4)[of "fillPressure (fillSalinity (fillTemperature r))" k] 3 d by simp
    then show ?thesis
      by (simp only: normalizeRow_def)
  qed
  show ?thesis
    using other kept normalizeRow_canonical_defined[of r]
    by (simp add: normalizeRow_TEMP normalizeRow_PSAL normalizeRow_PRES normalizeRow_TIME
        del: not_None_eq)
qed

theorem normalize_frame_witness:
  "normalizeRow rowMixed ''station'' = Some (JStr ''A'')
   \<and> normalizeRow rowMixed ''TEMP'' = Some (JNum (Some 10))
   \<and> normalizeRow rowMixed ''PSAL'' = Some JNull
   \<and> normalizeRow rowAliased ''TEMP'' = Some (JNum (Some 10))"
proof -
  have a: "''station'' \<notin> set [''TEMP'', ''PSAL'', ''PRES'', ''TIME'']" by simp
  have b: "rowMixed ''TEMP'' \<noteq> None" by (simp add: rowMixed_def)
  have c: "rowMixed ''PSAL'' = None" "rowAliased ''TEMP'' = None"
    by (simp_all add: rowMixed_def rowAliased_def)
  show ?thesis
    using normalize_frame[of "''station''" rowMixed] normalize_frame[of "''TEMP''" rowMixed]
      normalize_frame[of "''PSAL''" rowAliased] a b c
    by (simp add: rowMixed_def rowAliased_def nullish_def)
qed

text \<open>
  Claim C10. Every normalized record defines TEMP, PSAL, PRES and TIME; so for a dataset that
  is not empty the three availability predicates hold, and the generator's result is the one
  its body gives with the three predicates replaced by true.
\<close>

theorem availability_always_true:
  "(\<forall>d \<in> set (normalizedData data).
      d ''TEMP'' \<noteq> None \<and> d ''PSAL'' \<noteq> None \<and> d ''PRES'' \<noteq> None \<and> d ''TIME'' \<noteq> None)
   \<and> (data \<noteq> [] \<longrightarrow>
        hasTemp (normalizedData data) \<and> hasSal (normalizedData data) \<and> hasTime (normalizedData data)
        \<and> generatedVisualizations rt data profession intent
            = buildVisualizations rt True True True (normalizedData data)
                (toLowerCase (if profession = [] then ''Researcher'' else profession))
                (toLowerCase intent))"
  using normalized_defined[of _ data] normalized_has[of data]
  by (simp add: generatedVisualizations_def createVisualizations_def hasData_def Let_def
      del: not_None_eq)

theorem availability_always_true_witness:
  "[rowTempSal] \<noteq> []
   \<and> hasTemp (normalizedData [rowTempSal]) \<and> hasSal (normalizedData [rowTempSal])
   \<and> hasTime (normalizedData [rowTempSal])
   \<and> list_all (\<lambda>d. d ''PRES'' \<noteq> None \<and> d ''TIME'' \<noteq> None) (normalizedData [rowTempSal])"
proof -
  note t = availability_always_true[of "[rowTempSal]" refRuntime "[]" "[]"]
  have n: "[rowTempSal] \<noteq> []"
    by simp
  from t n have h: "hasTemp (normalizedData [rowTempSal]) \<and> hasSal (normalizedData [rowTempSal])
      \<and> hasTime (normalizedData [rowTempSal])"
    by blast
  from t have "\<forall>d \<in> set (normalizedData [rowTempSal]). d ''PRES'' \<noteq> None \<and> d ''TIME'' \<noteq> None"
    by blast
  then have "list_all (\<lambda>d. d ''PRES'' \<noteq> None \<and> d ''TIME'' \<noteq> None) (normalizedData [rowTempSal])"
    by (simp only: list_all_iff)
  with n h show ?thesis by blast
qed

end
